theory Spec2Isabelle
  imports Main "HOL-Library.Word"
begin

section \<open>Untyped document values\<close>

text \<open>
  A dashboard document is a Go \<^verbatim>\<open>map[string]interface{}\<close>. The dynamic values that the
  traversal code distinguishes by type assertion are the ones \<^verbatim>\<open>encoding/json\<close> decodes
  to (nil, bool, float64, string, slice, map) and, in \<^verbatim>\<open>checkLogPanelAttrContains\<close>,
  \<^verbatim>\<open>map[string]string\<close>. A float64 is kept as its 64-bit pattern; no function of the
  file looks inside one. A map is an association list read with \<open>map_of\<close>: the first
  binding of a key is the one a lookup sees. A nil map reads like the empty map.
\<close>

type_synonym float64 = "64 word"

datatype jvalue =
    VNil
  | VBool bool
  | VFloat64 float64
  | VString string
  | VSlice "jvalue list"
  | VMap "(string \<times> jvalue) list"
  | VMapStr "(string \<times> string) list"

type_synonym data = "(string \<times> jvalue) list"

text \<open>\<^verbatim>\<open>m[k]\<close> on a \<^verbatim>\<open>map[string]interface{}\<close>: the nil interface when the key is absent.\<close>

definition index :: "data \<Rightarrow> string \<Rightarrow> jvalue" where
  "index m k = (case map_of m k of None \<Rightarrow> VNil | Some v \<Rightarrow> v)"

text \<open>\<^verbatim>\<open>m[k]\<close> on a \<^verbatim>\<open>map[string]string\<close>: the empty string when the key is absent.\<close>

definition indexStr :: "(string \<times> string) list \<Rightarrow> string \<Rightarrow> string" where
  "indexStr m k = (case map_of m k of None \<Rightarrow> [] | Some v \<Rightarrow> v)"

text \<open>The comma-ok type assertions \<^verbatim>\<open>v.(T)\<close>: \<open>None\<close> is \<^verbatim>\<open>ok == false\<close>.\<close>

fun asMap :: "jvalue \<Rightarrow> data option" where
  "asMap (VMap m) = Some m"
| "asMap _ = None"

fun asSlice :: "jvalue \<Rightarrow> jvalue list option" where
  "asSlice (VSlice xs) = Some xs"
| "asSlice _ = None"

fun asString :: "jvalue \<Rightarrow> string option" where
  "asString (VString s) = Some s"
| "asString _ = None"

fun asMapStr :: "jvalue \<Rightarrow> (string \<times> string) list option" where
  "asMapStr (VMapStr m) = Some m"
| "asMapStr _ = None"

section \<open>Widget identifiers and their difference\<close>

text \<open>The loop of \<^verbatim>\<open>getWidgetIds\<close> over the widgets, appending to \<^verbatim>\<open>widgetIds\<close>.\<close>

fun widgetIdsLoop :: "jvalue list \<Rightarrow> string list \<Rightarrow> string list" where
  "widgetIdsLoop [] widgetIds = widgetIds"
| "widgetIdsLoop (widget # rest) widgetIds =
     widgetIdsLoop rest
       (case asMap widget of
          None \<Rightarrow> widgetIds
        | Some sData \<Rightarrow>
            if index sData ''query'' \<noteq> VNil \<and> index sData ''id'' \<noteq> VNil
            then (case asString (index sData ''id'') of
                    None \<Rightarrow> widgetIds
                  | Some id' \<Rightarrow> widgetIds @ [id'])
            else widgetIds)"

definition getWidgetIds :: "data \<Rightarrow> string list" where
  "getWidgetIds d =
     (if index d ''widgets'' \<noteq> VNil
      then (case map_of d ''widgets'' of
              None \<Rightarrow> []
            | Some widgets \<Rightarrow>
                (case asSlice widgets of
                   None \<Rightarrow> []
                 | Some ws \<Rightarrow> widgetIdsLoop ws []))
      else [])"

text \<open>
  \<^verbatim>\<open>getIdDifference\<close>: the first loop fills \<^verbatim>\<open>newIdsMap\<close>, the second walks
  \<^verbatim>\<open>existingIds\<close> with \<^verbatim>\<open>differenceMap\<close> and \<^verbatim>\<open>difference\<close> as its state.
  Reading a \<^verbatim>\<open>map[string]bool\<close> at an absent key gives false.
\<close>

fun newIdsLoop :: "string list \<Rightarrow> (string \<rightharpoonup> bool) \<Rightarrow> (string \<rightharpoonup> bool)" where
  "newIdsLoop [] newIdsMap = newIdsMap"
| "newIdsLoop (id' # rest) newIdsMap = newIdsLoop rest (newIdsMap(id' \<mapsto> True))"

definition readBool :: "(string \<rightharpoonup> bool) \<Rightarrow> string \<Rightarrow> bool" where
  "readBool m k = (case m k of None \<Rightarrow> False | Some b \<Rightarrow> b)"

fun differenceLoop ::
  "(string \<rightharpoonup> bool) \<Rightarrow> string list \<Rightarrow> (string \<rightharpoonup> bool) \<Rightarrow> string list \<Rightarrow> string list" where
  "differenceLoop newIdsMap [] differenceMap difference = difference"
| "differenceLoop newIdsMap (id' # rest) differenceMap difference =
     (if newIdsMap id' = None \<and> \<not> readBool differenceMap id'
      then differenceLoop newIdsMap rest (differenceMap(id' \<mapsto> True)) (difference @ [id'])
      else differenceLoop newIdsMap rest differenceMap difference)"

definition getIdDifference :: "string list \<Rightarrow> string list \<Rightarrow> string list" where
  "getIdDifference existingIds newIds =
     differenceLoop (newIdsLoop newIds Map.empty) existingIds Map.empty []"

section \<open>The update-safety policy\<close>

text \<open>
  Modelled from the spec: \<^verbatim>\<open>model.ApiError\<close>, its error kinds and \<^verbatim>\<open>model.BadRequest\<close>
  are declared in package \<^verbatim>\<open>model\<close>, outside the source file. The spec asks for a policy
  violation that the caller can tell from a persistence failure: a bad request carries the
  kind \<open>ErrorBadData\<close>, a failed statement the kind \<open>ErrorExec\<close>. The Go \<^verbatim>\<open>error\<close> inside
  is kept as its message.
\<close>

datatype ErrorType = ErrorBadData | ErrorNotFound | ErrorExec

record ApiError =
  Typ :: ErrorType
  Err :: string

definition BadRequest :: "string \<Rightarrow> ApiError" where
  "BadRequest err = \<lparr>Typ = ErrorBadData, Err = err\<rparr>"

text \<open>
  The struct \<^verbatim>\<open>Dashboard\<close>. Times are abstract instants; the pointer fields are options.
  The field \<^verbatim>\<open>Id\<close> is written \<open>Id'\<close>.
\<close>

record Dashboard =
  Id' :: int
  Uuid :: string
  Slug :: string
  CreatedAt :: int
  CreateBy :: "string option"
  UpdatedAt :: int
  UpdateBy :: "string option"
  Title :: string
  Data :: data
  Locked :: "int option"

text \<open>
  The table \<^verbatim>\<open>dashboards\<close> is the list of its rows as \<^verbatim>\<open>Scan\<close> reads them.
  \<^verbatim>\<open>GetDashboard\<close> takes the first row with the uuid; every failure of \<^verbatim>\<open>db.Get\<close> is
  reported as not found.
\<close>

definition GetDashboard :: "Dashboard list \<Rightarrow> string \<Rightarrow> ApiError + Dashboard" where
  "GetDashboard db uuid =
     (case find (\<lambda>r. Uuid r = uuid) db of
        None \<Rightarrow> Inl \<lparr>Typ = ErrorNotFound, Err = ''no dashboard found with uuid: '' @ uuid\<rparr>
      | Some dashboard \<Rightarrow> Inr dashboard)"

text \<open>
  \<^verbatim>\<open>UpdateDashboard\<close>. Taken as parameters: \<open>marshal\<close> (\<^verbatim>\<open>json.Marshal\<close>, \<open>Inl\<close> its
  error), \<open>user\<close> (the e-mail of the user in the context, if there is one), \<open>now\<close>
  (\<^verbatim>\<open>time.Now()\<close>) and \<open>execErr\<close> (the error of \<^verbatim>\<open>db.Exec\<close>, if it fails). The result
  is the returned value and the table afterwards. The statement updates every row with
  the uuid of the dashboard read; a row's data is the document that was marshalled.
\<close>

definition UpdateDashboard ::
  "(data \<Rightarrow> string + string) \<Rightarrow> string option \<Rightarrow> int \<Rightarrow> string option \<Rightarrow>
   Dashboard list \<Rightarrow> string \<Rightarrow> data \<Rightarrow> (ApiError + Dashboard) \<times> Dashboard list" where
  "UpdateDashboard marshal user now execErr db uuid d =
     (case marshal d of
        Inl err \<Rightarrow> (Inl \<lparr>Typ = ErrorBadData, Err = err\<rparr>, db)
      | Inr mapData \<Rightarrow>
          (case GetDashboard db uuid of
             Inl apiErr \<Rightarrow> (Inl apiErr, db)
           | Inr dashboard \<Rightarrow>
               if user \<noteq> None \<and> Locked dashboard = Some 1
               then (Inl (BadRequest
                       ''dashboard is locked, please unlock the dashboard to be able to edit it''), db)
               else
                 let userEmail = (case user of None \<Rightarrow> [] | Some email \<Rightarrow> email);
                     existingIds = getWidgetIds (Data dashboard);
                     newIds = getWidgetIds d;
                     differenceIds = getIdDifference existingIds newIds
                 in if length differenceIds > 1
                    then (Inl (BadRequest ''deleting more than one panel is not supported''), db)
                    else
                      (case execErr of
                         Some err \<Rightarrow> (Inl \<lparr>Typ = ErrorExec, Err = err\<rparr>, db)
                       | None \<Rightarrow>
                           (Inr (dashboard\<lparr>UpdatedAt := now, UpdateBy := Some userEmail, Data := d\<rparr>),
                            map (\<lambda>r. if Uuid r = Uuid dashboard
                                      then r\<lparr>UpdatedAt := now, UpdateBy := Some userEmail, Data := d\<rparr>
                                      else r) db))))"

section \<open>Dashboard analytics\<close>

text \<open>\<^verbatim>\<open>strings.Contains\<close>: some suffix of the text starts with the substring.\<close>

fun Contains :: "string \<Rightarrow> string \<Rightarrow> bool" where
  "Contains [] substr = (substr = [])"
| "Contains (c # s) substr = (take (length substr) (c # s) = substr \<or> Contains s substr)"

text \<open>
  The four sniffing functions serialise the whole document with \<^verbatim>\<open>json.Marshal\<close>, which
  is a parameter here (\<open>Inl\<close> its error, \<open>Inr\<close> the JSON text).
\<close>

definition isDashboardWithTSV2 :: "(data \<Rightarrow> string + string) \<Rightarrow> data \<Rightarrow> bool" where
  "isDashboardWithTSV2 marshal d =
     (case marshal d of
        Inl err \<Rightarrow> False
      | Inr jsonData \<Rightarrow> Contains jsonData ''time_series_v2'')"

definition isDashboardWithTagAttrs :: "(data \<Rightarrow> string + string) \<Rightarrow> data \<Rightarrow> bool" where
  "isDashboardWithTagAttrs marshal d =
     (case marshal d of
        Inl err \<Rightarrow> False
      | Inr jsonData \<Rightarrow>
          Contains jsonData ''span_attributes'' \<or> Contains jsonData ''tag_attributes'')"

definition isDashboardWithLogsClickhouseQuery :: "(data \<Rightarrow> string + string) \<Rightarrow> data \<Rightarrow> bool" where
  "isDashboardWithLogsClickhouseQuery marshal d =
     (case marshal d of
        Inl err \<Rightarrow> False
      | Inr jsonData \<Rightarrow>
          Contains jsonData ''signoz_logs.distributed_logs'' \<or>
          Contains jsonData ''signoz_logs.logs'')"

definition isDashboardWithTracesClickhouseQuery :: "(data \<Rightarrow> string + string) \<Rightarrow> data \<Rightarrow> bool" where
  "isDashboardWithTracesClickhouseQuery marshal d =
     (case marshal d of
        Inl err \<Rightarrow> False
      | Inr str \<Rightarrow>
          Contains str ''signoz_traces.distributed_signoz_index_v2'' \<or>
          Contains str ''signoz_traces.distributed_signoz_spans'' \<or>
          Contains str ''signoz_traces.distributed_signoz_error_index_v2'')"

definition isDashboardWithPanelAndName :: "data \<Rightarrow> bool" where
  "isDashboardWithPanelAndName d =
     (if index d ''title'' \<noteq> VNil \<and> index d ''widgets'' \<noteq> VNil
      then
        (let isDashboardName =
               (case asString (index d ''title'') of
                  None \<Rightarrow> False
                | Some title \<Rightarrow> title \<noteq> ''Sample Title'')
         in case map_of d ''widgets'' of
              None \<Rightarrow> False
            | Some widgets \<Rightarrow>
                if isDashboardName
                then (case asSlice widgets of
                        None \<Rightarrow> False
                      | Some ws \<Rightarrow> length ws > 0)
                else False)
      else False)"

definition extractDashboardName :: "data \<Rightarrow> string" where
  "extractDashboardName d =
     (if index d ''title'' \<noteq> VNil
      then (case asString (index d ''title'') of None \<Rightarrow> [] | Some title \<Rightarrow> title)
      else [])"

text \<open>
  \<^verbatim>\<open>checkLogPanelAttrContains\<close>: the loop over the filter items, then the function. The
  key of an item is asserted to be a \<^verbatim>\<open>map[string]string\<close>. Go's \<^verbatim>\<open>int\<close> counters are
  integers here: each is raised by one per element visited.
\<close>

fun attrContainsLoop :: "jvalue list \<Rightarrow> int \<Rightarrow> int" where
  "attrContainsLoop [] logsPanelsWithAttrContains = logsPanelsWithAttrContains"
| "attrContainsLoop (item # rest) logsPanelsWithAttrContains =
     attrContainsLoop rest
       (case asMap item of
          None \<Rightarrow> logsPanelsWithAttrContains
        | Some itemMap \<Rightarrow>
            (case asString (index itemMap ''op'') of
               None \<Rightarrow> logsPanelsWithAttrContains
             | Some opStr \<Rightarrow>
                 if opStr \<in> set [''contains'', ''ncontains'', ''like'', ''nlike'']
                 then (case asMapStr (index itemMap ''key'') of
                         None \<Rightarrow> logsPanelsWithAttrContains
                       | Some key \<Rightarrow>
                           if indexStr key ''key'' \<noteq> ''body''
                           then logsPanelsWithAttrContains + 1
                           else logsPanelsWithAttrContains)
                 else logsPanelsWithAttrContains))"

definition checkLogPanelAttrContains :: "data \<Rightarrow> int" where
  "checkLogPanelAttrContains d =
     (case asMap (index d ''filters'') of
        None \<Rightarrow> 0
      | Some filters \<Rightarrow>
          if index filters ''items'' \<noteq> VNil
          then (case asSlice (index filters ''items'') of
                  None \<Rightarrow> 0
                | Some items \<Rightarrow> attrContainsLoop items 0)
          else 0)"

text \<open>
  The six fields of \<^verbatim>\<open>model.DashboardsInfo\<close> that \<^verbatim>\<open>countPanelsInDashboard\<close> sets, and
  the six local counters of the function as the state of its loops.
\<close>

record DashboardsInfo =
  LogsBasedPanels :: int
  TracesBasedPanels :: int
  MetricBasedPanels :: int
  DashboardsWithLogsChQuery :: int
  DashboardsWithTraceChQuery :: int
  LogsPanelsWithAttrContainsOp :: int

record panelCounts =
  logsPanelCount :: int
  tracesPanelCount :: int
  metricsPanelCount :: int
  logsPanelsWithAttrContains :: int
  traceChQueryCount :: int
  logChQueryCount :: int

definition noPanels :: panelCounts where
  "noPanels = \<lparr>logsPanelCount = 0, tracesPanelCount = 0, metricsPanelCount = 0,
     logsPanelsWithAttrContains = 0, traceChQueryCount = 0, logChQueryCount = 0\<rparr>"

fun builderQueryDataLoop :: "jvalue list \<Rightarrow> panelCounts \<Rightarrow> panelCounts" where
  "builderQueryDataLoop [] c = c"
| "builderQueryDataLoop (queryData # rest) c =
     builderQueryDataLoop rest
       (case asMap queryData of
          None \<Rightarrow> c
        | Some qd \<Rightarrow>
            if index qd ''dataSource'' = VString ''traces''
            then c\<lparr>tracesPanelCount := tracesPanelCount c + 1\<rparr>
            else if index qd ''dataSource'' = VString ''metrics''
            then c\<lparr>metricsPanelCount := metricsPanelCount c + 1\<rparr>
            else if index qd ''dataSource'' = VString ''logs''
            then c\<lparr>logsPanelCount := logsPanelCount c + 1,
                   logsPanelsWithAttrContains :=
                     logsPanelsWithAttrContains c + checkLogPanelAttrContains qd\<rparr>
            else c)"

text \<open>The body of the loop over the widgets, for one widget.\<close>

definition widgetPanels ::
  "(data \<Rightarrow> string + string) \<Rightarrow> data \<Rightarrow> jvalue \<Rightarrow> panelCounts \<Rightarrow> panelCounts" where
  "widgetPanels marshal inputData widget c =
     (case asMap widget of
        None \<Rightarrow> c
      | Some sData \<Rightarrow>
          if index sData ''query'' \<noteq> VNil
          then
            (case asMap (index sData ''query'') of
               None \<Rightarrow> c
             | Some query \<Rightarrow>
                 if index query ''queryType'' = VString ''builder'' \<and> index query ''builder'' \<noteq> VNil
                 then
                   (case asMap (index query ''builder'') of
                      None \<Rightarrow> c
                    | Some builderData \<Rightarrow>
                        if index builderData ''queryData'' \<noteq> VNil
                        then (case asSlice (index builderData ''queryData'') of
                                None \<Rightarrow> c
                              | Some builderQueryData \<Rightarrow> builderQueryDataLoop builderQueryData c)
                        else c)
                 else if index query ''queryType'' = VString ''clickhouse_sql'' \<and>
                         index query ''clickhouse_sql'' \<noteq> VNil
                 then
                   (let c1 = (if isDashboardWithLogsClickhouseQuery marshal inputData
                              then c\<lparr>logChQueryCount := 1\<rparr> else c)
                    in if isDashboardWithTracesClickhouseQuery marshal inputData
                       then c1\<lparr>traceChQueryCount := 1\<rparr> else c1)
                 else c)
          else c)"

fun widgetsLoop ::
  "(data \<Rightarrow> string + string) \<Rightarrow> data \<Rightarrow> jvalue list \<Rightarrow> panelCounts \<Rightarrow> panelCounts" where
  "widgetsLoop marshal inputData [] c = c"
| "widgetsLoop marshal inputData (widget # rest) c =
     widgetsLoop marshal inputData rest (widgetPanels marshal inputData widget c)"

definition countPanelsInDashboard :: "(data \<Rightarrow> string + string) \<Rightarrow> data \<Rightarrow> DashboardsInfo" where
  "countPanelsInDashboard marshal inputData =
     (let c =
        (if index inputData ''widgets'' \<noteq> VNil
         then (case map_of inputData ''widgets'' of
                 None \<Rightarrow> noPanels
               | Some widgets \<Rightarrow>
                   (case asSlice widgets of
                      None \<Rightarrow> noPanels
                    | Some ws \<Rightarrow> widgetsLoop marshal inputData ws noPanels))
         else noPanels)
      in \<lparr>LogsBasedPanels = logsPanelCount c,
          TracesBasedPanels = tracesPanelCount c,
          MetricBasedPanels = metricsPanelCount c,
          DashboardsWithLogsChQuery = logChQueryCount c,
          DashboardsWithTraceChQuery = traceChQueryCount c,
          LogsPanelsWithAttrContainsOp = logsPanelsWithAttrContains c\<rparr>)"

section \<open>Metric usage\<close>

text \<open>
  \<^verbatim>\<open>strings.TrimSpace\<close> on the bytes of a Go string: the white-space runes of
  \<^verbatim>\<open>unicode.IsSpace\<close> in their UTF-8 encodings (U+0009 to U+000D, U+0020, U+0085, U+00A0,
  U+1680, U+2000 to U+200A, U+2028, U+2029, U+202F, U+205F, U+3000) are removed from the
  front, then from the back.
\<close>

definition unicodeSpaces :: "string list" where
  "unicodeSpaces =
     [[CHR 0x09], [CHR 0x0A], [CHR 0x0B], [CHR 0x0C], [CHR 0x0D], [CHR 0x20],
      [CHR 0xC2, CHR 0x85], [CHR 0xC2, CHR 0xA0],
      [CHR 0xE1, CHR 0x9A, CHR 0x80],
      [CHR 0xE2, CHR 0x80, CHR 0x80], [CHR 0xE2, CHR 0x80, CHR 0x81],
      [CHR 0xE2, CHR 0x80, CHR 0x82], [CHR 0xE2, CHR 0x80, CHR 0x83],
      [CHR 0xE2, CHR 0x80, CHR 0x84], [CHR 0xE2, CHR 0x80, CHR 0x85],
      [CHR 0xE2, CHR 0x80, CHR 0x86], [CHR 0xE2, CHR 0x80, CHR 0x87],
      [CHR 0xE2, CHR 0x80, CHR 0x88], [CHR 0xE2, CHR 0x80, CHR 0x89],
      [CHR 0xE2, CHR 0x80, CHR 0x8A],
      [CHR 0xE2, CHR 0x80, CHR 0xA8], [CHR 0xE2, CHR 0x80, CHR 0xA9],
      [CHR 0xE2, CHR 0x80, CHR 0xAF],
      [CHR 0xE2, CHR 0x81, CHR 0x9F],
      [CHR 0xE3, CHR 0x80, CHR 0x80]]"

function dropSpaces :: "string list \<Rightarrow> string \<Rightarrow> string" where
  "dropSpaces runes s =
     (case find (\<lambda>e. e \<noteq> [] \<and> take (length e) s = e) runes of
        None \<Rightarrow> s
      | Some e \<Rightarrow> dropSpaces runes (drop (length e) s))"
  by pat_completeness auto
termination
proof (relation "measure (\<lambda>(runes, s). length s)")
  show "wf (measure (\<lambda>(runes, s). length s))" by simp
next
  fix runes :: "string list" and s e :: string
  assume "find (\<lambda>e. e \<noteq> [] \<and> take (length e) s = e) runes = Some e"
  then have "e \<noteq> []" and "take (length e) s = e"
    by (auto simp: find_Some_iff)
  then have "s \<noteq> []" by auto
  with \<open>e \<noteq> []\<close> show "((runes, drop (length e) s), (runes, s)) \<in> measure (\<lambda>(runes, s). length s)"
    by simp
qed

definition TrimSpace :: "string \<Rightarrow> string" where
  "TrimSpace s = rev (dropSpaces (map rev unicodeSpaces) (rev (dropSpaces unicodeSpaces s)))"

text \<open>
  A row of \<^verbatim>\<open>SELECT uuid, data FROM dashboards\<close>. Its data is kept as the outcome of
  \<^verbatim>\<open>json.Unmarshal\<close> on the raw message: \<open>None\<close> when decoding fails. A usage record is
  the four-key \<^verbatim>\<open>map[string]string\<close> literal; the result maps a metric name to its
  records.
\<close>

record dashboardRow =
  rowUuid :: string
  rowData :: "data option"

type_synonym usage = "(string \<times> string) list"

type_synonym usageIndex = "string \<rightharpoonup> usage list"

text \<open>\<^verbatim>\<open>result[metricName]\<close>: the nil slice when the key is absent.\<close>

definition usagesOf :: "usageIndex \<Rightarrow> string \<Rightarrow> usage list" where
  "usagesOf result metricName = (case result metricName of None \<Rightarrow> [] | Some us \<Rightarrow> us)"

text \<open>A failed \<^verbatim>\<open>v.(string)\<close> whose \<^verbatim>\<open>ok\<close> is dropped leaves the empty string.\<close>

definition stringOrEmpty :: "jvalue \<Rightarrow> string" where
  "stringOrEmpty v = (case asString v of None \<Rightarrow> [] | Some s \<Rightarrow> s)"

text \<open>The four nested loops of \<^verbatim>\<open>GetDashboardsWithMetricNames\<close>, innermost first.\<close>

fun metricNamesLoop :: "string \<Rightarrow> usage \<Rightarrow> string list \<Rightarrow> usageIndex \<Rightarrow> usageIndex" where
  "metricNamesLoop key u [] result = result"
| "metricNamesLoop key u (metricName # rest) result =
     metricNamesLoop key u rest
       (if TrimSpace key = metricName
        then result(metricName \<mapsto> usagesOf result metricName @ [u])
        else result)"

fun queryDataLoop :: "string list \<Rightarrow> usage \<Rightarrow> jvalue list \<Rightarrow> usageIndex \<Rightarrow> usageIndex" where
  "queryDataLoop metricNames u [] result = result"
| "queryDataLoop metricNames u (qd # rest) result =
     queryDataLoop metricNames u rest
       (case asMap qd of
          None \<Rightarrow> result
        | Some d \<Rightarrow>
            (case asString (index d ''dataSource'') of
               None \<Rightarrow> result
             | Some dataSource \<Rightarrow>
                 if dataSource \<noteq> ''metrics'' then result
                 else
                   (case asMap (index d ''aggregateAttribute'') of
                      None \<Rightarrow> result
                    | Some aggregateAttr \<Rightarrow>
                        (case asString (index aggregateAttr ''key'') of
                           None \<Rightarrow> result
                         | Some key \<Rightarrow> metricNamesLoop key u metricNames result))))"

fun widgetsUsageLoop ::
  "string list \<Rightarrow> string \<Rightarrow> string \<Rightarrow> jvalue list \<Rightarrow> usageIndex \<Rightarrow> usageIndex" where
  "widgetsUsageLoop metricNames uuid dashTitle [] result = result"
| "widgetsUsageLoop metricNames uuid dashTitle (w # rest) result =
     widgetsUsageLoop metricNames uuid dashTitle rest
       (case asMap w of
          None \<Rightarrow> result
        | Some widget \<Rightarrow>
            let widgetTitle = stringOrEmpty (index widget ''title'');
                widgetID = stringOrEmpty (index widget ''id'')
            in (case asMap (index widget ''query'') of
                  None \<Rightarrow> result
                | Some query \<Rightarrow>
                    (case asMap (index query ''builder'') of
                       None \<Rightarrow> result
                     | Some builder \<Rightarrow>
                         (case asSlice (index builder ''queryData'') of
                            None \<Rightarrow> result
                          | Some queryData \<Rightarrow>
                              queryDataLoop metricNames
                                [(''dashboard_id'', uuid), (''widget_title'', widgetTitle),
                                 (''widget_id'', widgetID), (''dashboard_title'', dashTitle)]
                                queryData result))))"

fun dashboardsLoop :: "string list \<Rightarrow> dashboardRow list \<Rightarrow> usageIndex \<Rightarrow> usageIndex" where
  "dashboardsLoop metricNames [] result = result"
| "dashboardsLoop metricNames (dashboard # rest) result =
     dashboardsLoop metricNames rest
       (case rowData dashboard of
          None \<Rightarrow> result
        | Some dashData \<Rightarrow>
            let dashTitle = stringOrEmpty (index dashData ''title'')
            in (case asSlice (index dashData ''widgets'') of
                  None \<Rightarrow> result
                | Some widgets \<Rightarrow>
                    widgetsUsageLoop metricNames (rowUuid dashboard) dashTitle widgets result))"

text \<open>
  \<^verbatim>\<open>GetDashboardsWithMetricNames\<close> on the outcome of \<^verbatim>\<open>db.Select\<close>: \<open>Inl\<close> its error,
  \<open>Inr\<close> the rows.
\<close>

definition GetDashboardsWithMetricNames ::
  "string + dashboardRow list \<Rightarrow> string list \<Rightarrow> ApiError + usageIndex" where
  "GetDashboardsWithMetricNames selected metricNames =
     (case selected of
        Inl err \<Rightarrow> Inl \<lparr>Typ = ErrorExec, Err = err\<rparr>
      | Inr dashboards \<Rightarrow> Inr (dashboardsLoop metricNames dashboards Map.empty))"

section \<open>The JSON text of a document\<close>

text \<open>
  The general results take \<^verbatim>\<open>json.Marshal\<close> as a parameter. For concrete documents,
  \<open>Marshal\<close> gives the compact text that \<^verbatim>\<open>encoding/json\<close> writes for a document whose
  strings are valid UTF-8: the keys of a map in byte order, strings quoted, with the
  escapes for the quote, the backslash, control characters, the HTML characters and
  U+2028 and U+2029. How a float64 is printed is the parameter \<open>formatFloat\<close> (\<open>None\<close>
  for a value that cannot be encoded).
\<close>

definition hexDigit :: "nat \<Rightarrow> char" where
  "hexDigit n = ''0123456789abcdef'' ! n"

definition escapeByte :: "char \<Rightarrow> string" where
  "escapeByte b =
     (if b = CHR 0x22 then [CHR 0x5C, CHR 0x22]
      else if b = CHR 0x5C then [CHR 0x5C, CHR 0x5C]
      else if b = CHR 0x08 then [CHR 0x5C, CHR ''b'']
      else if b = CHR 0x0C then [CHR 0x5C, CHR ''f'']
      else if b = CHR 0x0A then [CHR 0x5C, CHR ''n'']
      else if b = CHR 0x0D then [CHR 0x5C, CHR ''r'']
      else if b = CHR 0x09 then [CHR 0x5C, CHR ''t'']
      else if (of_char b :: nat) < 0x20 \<or> b \<in> set ''<>&''
      then [CHR 0x5C] @ ''u00'' @
           [hexDigit ((of_char b :: nat) div 16), hexDigit ((of_char b :: nat) mod 16)]
      else [b])"

fun escapeBytes :: "string \<Rightarrow> string" where
  "escapeBytes (a # b # c # s) =
     (if a = CHR 0xE2 \<and> b = CHR 0x80 \<and> (c = CHR 0xA8 \<or> c = CHR 0xA9)
      then [CHR 0x5C] @ ''u202'' @ [if c = CHR 0xA8 then CHR ''8'' else CHR ''9''] @ escapeBytes s
      else escapeByte a @ escapeBytes (b # c # s))"
| "escapeBytes (a # s) = escapeByte a @ escapeBytes s"
| "escapeBytes [] = []"

definition quoteString :: "string \<Rightarrow> string" where
  "quoteString s = [CHR 0x22] @ escapeBytes s @ [CHR 0x22]"

fun bytesLess :: "string \<Rightarrow> string \<Rightarrow> bool" where
  "bytesLess [] [] = False"
| "bytesLess [] (b # t) = True"
| "bytesLess (a # s) [] = False"
| "bytesLess (a # s) (b # t) =
     ((of_char a :: nat) < of_char b \<or> (a = b \<and> bytesLess s t))"

fun insertKey :: "string \<times> 'a \<Rightarrow> (string \<times> 'a) list \<Rightarrow> (string \<times> 'a) list" where
  "insertKey kv [] = [kv]"
| "insertKey kv (x # xs) =
     (if bytesLess (fst x) (fst kv) then x # insertKey kv xs else kv # x # xs)"

definition sortKeys :: "(string \<times> 'a) list \<Rightarrow> (string \<times> 'a) list" where
  "sortKeys kvs = foldr insertKey kvs []"

fun firstBindings :: "string list \<Rightarrow> (string \<times> 'a) list \<Rightarrow> (string \<times> 'a) list" where
  "firstBindings seen [] = []"
| "firstBindings seen ((k, v) # kvs) =
     (if k \<in> set seen then firstBindings seen kvs else (k, v) # firstBindings (k # seen) kvs)"

fun joinComma :: "string list \<Rightarrow> string" where
  "joinComma [] = []"
| "joinComma [x] = x"
| "joinComma (x # y # zs) = x @ '','' @ joinComma (y # zs)"

fun allSome :: "'a option list \<Rightarrow> 'a list option" where
  "allSome [] = Some []"
| "allSome (None # xs) = None"
| "allSome (Some x # xs) = map_option ((#) x) (allSome xs)"

fun encodeValue :: "(float64 \<Rightarrow> string option) \<Rightarrow> jvalue \<Rightarrow> string option" where
  "encodeValue formatFloat VNil = Some ''null''"
| "encodeValue formatFloat (VBool b) = Some (if b then ''true'' else ''false'')"
| "encodeValue formatFloat (VFloat64 f) = formatFloat f"
| "encodeValue formatFloat (VString s) = Some (quoteString s)"
| "encodeValue formatFloat (VSlice xs) =
     map_option (\<lambda>es. ''['' @ joinComma es @ '']'')
       (allSome (map (encodeValue formatFloat) xs))"
| "encodeValue formatFloat (VMap kvs) =
     map_option (\<lambda>ms. ''{'' @ joinComma ms @ ''}'')
       (allSome
          (map (\<lambda>(k, e). map_option (\<lambda>t. quoteString k @ '':'' @ t) e)
             (sortKeys (firstBindings []
                (map (\<lambda>(k, v). (k, encodeValue formatFloat v)) kvs)))))"
| "encodeValue formatFloat (VMapStr kvs) =
     Some (''{'' @
           joinComma (map (\<lambda>(k, v). quoteString k @ '':'' @ quoteString v)
                        (sortKeys (firstBindings [] kvs))) @
           ''}'')"

definition Marshal :: "(float64 \<Rightarrow> string option) \<Rightarrow> data \<Rightarrow> string + string" where
  "Marshal formatFloat d =
     (case encodeValue formatFloat (VMap d) of
        None \<Rightarrow> Inl ''json: unsupported value''
      | Some jsonData \<Rightarrow> Inr jsonData)"

text \<open>A formatter for documents without numbers: it encodes no float64.\<close>

definition noFloat :: "float64 \<Rightarrow> string option" where
  "noFloat f = None"

section \<open>Notions used in the statements\<close>

text \<open>
  The identifiers of a list that are outside a set, each kept where it is first seen:
  the set grows by every identifier that is kept.
\<close>

primrec diffFrom :: "string set \<Rightarrow> string list \<Rightarrow> string list" where
  "diffFrom S [] = []"
| "diffFrom S (x # xs) = (if x \<in> S then diffFrom S xs else x # diffFrom (insert x S) xs)"




text \<open>Example documents, as \<^verbatim>\<open>json.Unmarshal\<close> decodes them.\<close>

definition untitledDoc :: data where
  "untitledDoc =
     [(''title'', VString []),
      (''widgets'', VSlice [VMap [(''id'', VString ''w1'')]])]"

definition logsContainsDoc :: data where
  "logsContainsDoc =
     [(''title'', VString ''Logs''),
      (''widgets'', VSlice
        [VMap
          [(''id'', VString ''w1''),
           (''query'', VMap
             [(''queryType'', VString ''builder''),
              (''builder'', VMap
                [(''queryData'', VSlice
                  [VMap
                    [(''dataSource'', VString ''logs''),
                     (''filters'', VMap
                       [(''items'', VSlice
                         [VMap
                           [(''op'', VString ''contains''),
                            (''key'', VMap [(''key'', VString ''message'')])]])])]])])])]])]"


text \<open>
  A widget that reaches the raw-dialect branch of \<^verbatim>\<open>countPanelsInDashboard\<close>: a mapping
  whose query is a mapping with queryType "clickhouse_sql" and a clickhouse_sql field that
  is present and not null.
\<close>

definition isChWidget :: "jvalue \<Rightarrow> bool" where
  "isChWidget w =
     (case asMap w of
        None \<Rightarrow> False
      | Some sData \<Rightarrow>
          (case asMap (index sData ''query'') of
             None \<Rightarrow> False
           | Some query \<Rightarrow>
               index query ''queryType'' = VString ''clickhouse_sql'' \<and>
               index query ''clickhouse_sql'' \<noteq> VNil))"

text \<open>The elements of the widgets array; none when the field is not an array.\<close>

definition widgetsOf :: "data \<Rightarrow> jvalue list" where
  "widgetsOf d = (case asSlice (index d ''widgets'') of None \<Rightarrow> [] | Some ws \<Rightarrow> ws)"

text \<open>
  A document with the logs fingerprint in its title and a builder widget, and a document
  with two raw-dialect widgets.
\<close>

definition logsTitleDoc :: data where
  "logsTitleDoc =
     [(''title'', VString ''signoz_logs.logs volume''),
      (''widgets'', VSlice
        [VMap
          [(''id'', VString ''w1''),
           (''query'', VMap
             [(''queryType'', VString ''builder''),
              (''builder'', VMap
                [(''queryData'', VSlice [VMap [(''dataSource'', VString ''logs'')]])])])]])]"

definition chQueryDoc :: data where
  "chQueryDoc =
     [(''title'', VString ''Raw queries''),
      (''widgets'', VSlice
        [VMap
          [(''id'', VString ''w1''),
           (''query'', VMap
             [(''queryType'', VString ''clickhouse_sql''),
              (''clickhouse_sql'', VSlice
                [VMap [(''query'', VString ''SELECT count() FROM signoz_logs.logs'')]])])],
         VMap
          [(''id'', VString ''w2''),
           (''query'', VMap
             [(''queryType'', VString ''clickhouse_sql''),
              (''clickhouse_sql'', VSlice
                [VMap [(''query'',
                   VString ''SELECT count() FROM signoz_traces.distributed_signoz_index_v2'')]])])]])]"

text \<open>A stored dashboard with three panels, and two documents that update it.\<close>

definition threePanelDoc :: data where
  "threePanelDoc =
     [(''title'', VString ''Hosts''),
      (''widgets'', VSlice
        [VMap [(''id'', VString ''w1''), (''query'', VMap [(''queryType'', VString ''builder'')])],
         VMap [(''id'', VString ''w2''), (''query'', VMap [(''queryType'', VString ''builder'')])],
         VMap [(''id'', VString ''w3''), (''query'', VMap [(''queryType'', VString ''builder'')])]])]"

definition onePanelDoc :: data where
  "onePanelDoc =
     [(''title'', VString ''Hosts''),
      (''widgets'', VSlice
        [VMap [(''id'', VString ''w1''), (''query'', VMap [(''queryType'', VString ''builder'')])]])]"

definition twoPanelDoc :: data where
  "twoPanelDoc =
     [(''title'', VString ''Hosts''),
      (''widgets'', VSlice
        [VMap [(''id'', VString ''w1''), (''query'', VMap [(''queryType'', VString ''builder'')])],
         VMap [(''id'', VString ''w3''), (''query'', VMap [(''queryType'', VString ''builder'')])]])]"

definition storedDashboard :: Dashboard where
  "storedDashboard =
     \<lparr>Id' = 1, Uuid = ''d-1'', Slug = [], CreatedAt = 100, CreateBy = Some ''a@example.com'',
      UpdatedAt = 100, UpdateBy = Some ''a@example.com'', Title = [], Data = threePanelDoc,
      Locked = None\<rparr>"

text \<open>
  The metric name of a builder query item: the item is a mapping whose dataSource is
  "metrics" and whose aggregateAttribute is a mapping with a string key.
\<close>

definition metricKeyOf :: "jvalue \<Rightarrow> string option" where
  "metricKeyOf item =
     (case asMap item of
        None \<Rightarrow> None
      | Some d \<Rightarrow>
          if index d ''dataSource'' = VString ''metrics''
          then (case asMap (index d ''aggregateAttribute'') of
                  None \<Rightarrow> None
                | Some aggregateAttr \<Rightarrow> asString (index aggregateAttr ''key''))
          else None)"

text \<open>The item names the metric \<open>n\<close>: its key, with surrounding white space trimmed, equals \<open>n\<close>.\<close>

definition itemUses :: "string \<Rightarrow> jvalue \<Rightarrow> bool" where
  "itemUses n item = (case metricKeyOf item of None \<Rightarrow> False | Some key \<Rightarrow> TrimSpace key = n)"

text \<open>The builder query items of a widget: the array \<^verbatim>\<open>query.builder.queryData\<close>.\<close>

definition builderItems :: "jvalue \<Rightarrow> jvalue list" where
  "builderItems w =
     (case asMap w of
        None \<Rightarrow> []
      | Some widget \<Rightarrow>
          (case asMap (index widget ''query'') of
             None \<Rightarrow> []
           | Some query \<Rightarrow>
               (case asMap (index query ''builder'') of
                  None \<Rightarrow> []
                | Some builder \<Rightarrow>
                    (case asSlice (index builder ''queryData'') of
                       None \<Rightarrow> []
                     | Some queryData \<Rightarrow> queryData))))"

text \<open>Some builder query item of the widget names the metric.\<close>

definition widgetUses :: "string \<Rightarrow> jvalue \<Rightarrow> bool" where
  "widgetUses n w = list_ex (itemUses n) (builderItems w)"

text \<open>The widgets and the title of a row; none and empty when the row did not decode.\<close>

definition rowWidgets :: "dashboardRow \<Rightarrow> jvalue list" where
  "rowWidgets row = (case rowData row of None \<Rightarrow> [] | Some dashData \<Rightarrow> widgetsOf dashData)"

definition rowTitle :: "dashboardRow \<Rightarrow> string" where
  "rowTitle row =
     (case rowData row of None \<Rightarrow> [] | Some dashData \<Rightarrow> stringOrEmpty (index dashData ''title''))"

text \<open>The usage record of a widget of a dashboard.\<close>

definition usageRecord :: "string \<Rightarrow> string \<Rightarrow> jvalue \<Rightarrow> usage" where
  "usageRecord uuid dashTitle w =
     (let widget = (case asMap w of None \<Rightarrow> [] | Some m \<Rightarrow> m)
      in [(''dashboard_id'', uuid),
          (''widget_title'', stringOrEmpty (index widget ''title'')),
          (''widget_id'', stringOrEmpty (index widget ''id'')),
          (''dashboard_title'', dashTitle)])"

text \<open>
  The records under the name \<open>n\<close>, in the order in which the loops append them: one
  record for each occurrence of \<open>n\<close> among the requested names, for each item that names
  \<open>n\<close>, for each widget, for each row.
\<close>

definition itemUsages :: "string list \<Rightarrow> string \<Rightarrow> usage \<Rightarrow> jvalue \<Rightarrow> usage list" where
  "itemUsages metricNames n u item =
     (if itemUses n item then replicate (count_list metricNames n) u else [])"

definition widgetUsages :: "string list \<Rightarrow> string \<Rightarrow> string \<Rightarrow> string \<Rightarrow> jvalue \<Rightarrow> usage list" where
  "widgetUsages metricNames n uuid dashTitle w =
     concat (map (itemUsages metricNames n (usageRecord uuid dashTitle w)) (builderItems w))"

definition rowUsages :: "string list \<Rightarrow> string \<Rightarrow> dashboardRow \<Rightarrow> usage list" where
  "rowUsages metricNames n row =
     concat (map (widgetUsages metricNames n (rowUuid row) (rowTitle row)) (rowWidgets row))"

definition usagesSpec :: "dashboardRow list \<Rightarrow> string list \<Rightarrow> string \<Rightarrow> usage list" where
  "usagesSpec rows metricNames n = concat (map (rowUsages metricNames n) rows)"

text \<open>No key of the result is mapped to the empty list.\<close>

definition noEmptyEntry :: "usageIndex \<Rightarrow> bool" where
  "noEmptyEntry result = (\<forall>n. result n \<noteq> Some [])"

text \<open>
  A dashboard row with one widget whose builder query has a metrics item with the key
  " cpu_usage "; the queryType field of the query is the parameter. Its usage record.
\<close>

definition cpuWidget :: "(string \<times> jvalue) list \<Rightarrow> jvalue" where
  "cpuWidget queryTypeField =
     VMap
       [(''id'', VString ''w1''),
        (''title'', VString ''CPU''),
        (''query'', VMap
          (queryTypeField @
           [(''builder'', VMap
              [(''queryData'', VSlice
                 [VMap
                    [(''dataSource'', VString ''metrics''),
                     (''aggregateAttribute'', VMap [(''key'', VString '' cpu_usage '')])]])])]))]"

definition cpuDoc :: "(string \<times> jvalue) list \<Rightarrow> data" where
  "cpuDoc queryTypeField =
     [(''title'', VString ''Hosts''), (''widgets'', VSlice [cpuWidget queryTypeField])]"

definition cpuRow :: "(string \<times> jvalue) list \<Rightarrow> dashboardRow" where
  "cpuRow queryTypeField = \<lparr>rowUuid = ''d-1'', rowData = Some (cpuDoc queryTypeField)\<rparr>"

definition cpuUsage :: usage where
  "cpuUsage =
     [(''dashboard_id'', ''d-1''), (''widget_title'', ''CPU''), (''widget_id'', ''w1''),
      (''dashboard_title'', ''Hosts'')]"

text \<open>The queryType of the query of a widget; nil when there is none.\<close>

definition queryTypeOf :: "jvalue \<Rightarrow> jvalue" where
  "queryTypeOf w =
     (case asMap w of
        None \<Rightarrow> VNil
      | Some sData \<Rightarrow>
          (case asMap (index sData ''query'') of
             None \<Rightarrow> VNil
           | Some query \<Rightarrow> index query ''queryType''))"

definition isBuilderWidget :: "jvalue \<Rightarrow> bool" where
  "isBuilderWidget w = (queryTypeOf w = VString ''builder'')"

text \<open>The four panel counters, of the loop state and of the summary.\<close>

definition panelsOf :: "panelCounts \<Rightarrow> int \<times> int \<times> int \<times> int" where
  "panelsOf c = (logsPanelCount c, tracesPanelCount c, metricsPanelCount c, logsPanelsWithAttrContains c)"

definition panelFields :: "DashboardsInfo \<Rightarrow> int \<times> int \<times> int \<times> int" where
  "panelFields info =
     (LogsBasedPanels info, TracesBasedPanels info, MetricBasedPanels info,
      LogsPanelsWithAttrContainsOp info)"

text \<open>
  The values that \<^verbatim>\<open>json.Unmarshal\<close> produces: no \<^verbatim>\<open>map[string]string\<close> at any depth.
\<close>

fun decoded :: "jvalue \<Rightarrow> bool" where
  "decoded (VMapStr m) = False"
| "decoded (VSlice xs) = list_all decoded xs"
| "decoded (VMap kvs) = list_all (\<lambda>kv. decoded (snd kv)) kvs"
| "decoded v = True"






section \<open>The difference of identifier lists\<close>

lemma newIdsLoop_None: "newIdsLoop xs m k = None \<longleftrightarrow> m k = None \<and> k \<notin> set xs"
  by (induction xs arbitrary: m) auto

lemma differenceLoop_diffFrom:
  "(\<And>x. readBool dm x \<longleftrightarrow> x \<in> set diff) \<Longrightarrow>
   differenceLoop nm xs dm diff = diff @ diffFrom ({x. nm x \<noteq> None} \<union> set diff) xs"
proof (induction xs arbitrary: dm diff)
  case Nil
  show ?case by simp
next
  case (Cons x xs)
  show ?case
  proof (cases "nm x = None \<and> \<not> readBool dm x")
    case True
    have inv: "\<And>y. readBool (dm(x \<mapsto> True)) y \<longleftrightarrow> y \<in> set (diff @ [x])"
      using Cons.prems by (simp add: readBool_def)
    have sets: "{x. nm x \<noteq> None} \<union> set (diff @ [x]) = insert x ({x. nm x \<noteq> None} \<union> set diff)"
      by auto
    have notin: "x \<notin> {x. nm x \<noteq> None} \<union> set diff"
      using True Cons.prems by simp
    have "differenceLoop nm (x # xs) dm diff = differenceLoop nm xs (dm(x \<mapsto> True)) (diff @ [x])"
      using True by simp
    also have "\<dots> = (diff @ [x]) @ diffFrom ({x. nm x \<noteq> None} \<union> set (diff @ [x])) xs"
      by (rule Cons.IH [OF inv])
    also have "\<dots> = diff @ diffFrom ({x. nm x \<noteq> None} \<union> set diff) (x # xs)"
      using notin by (simp only: sets diffFrom.simps if_False append_assoc append_Cons append_Nil)
    finally show ?thesis .
  next
    case False
    with Cons.IH [OF Cons.prems] Cons.prems show ?thesis by auto
  qed
qed

lemma set_diffFrom: "set (diffFrom S xs) = set xs - S"
  by (induction xs arbitrary: S) auto

lemma distinct_diffFrom: "distinct (diffFrom S xs)"
  by (induction xs arbitrary: S) (auto simp: set_diffFrom)

lemma diffFrom_nth:
  "diffFrom S xs =
   map (nth xs) (filter (\<lambda>i. xs ! i \<notin> S \<and> xs ! i \<notin> set (take i xs)) [0..<length xs])"
proof (induction xs arbitrary: S)
  case Nil
  show ?case by simp
next
  case (Cons x xs)
  have upt: "[0..<Suc (length xs)] = 0 # map Suc [0..<length xs]"
    by (simp add: upt_conv_Cons map_Suc_upt del: upt_Suc)
  show ?case
  proof (cases "x \<in> S")
    case True
    have "filter (\<lambda>i. xs ! i \<notin> S \<and> xs ! i \<noteq> x \<and> xs ! i \<notin> set (take i xs)) [0..<length xs]
        = filter (\<lambda>i. xs ! i \<notin> S \<and> xs ! i \<notin> set (take i xs)) [0..<length xs]"
      using True by (intro filter_cong) auto
    then show ?thesis
      using True Cons.IH [of S]
      by (simp add: upt filter_map comp_def del: upt_Suc)
  next
    case False
    have "filter (\<lambda>i. xs ! i \<notin> S \<and> xs ! i \<noteq> x \<and> xs ! i \<notin> set (take i xs)) [0..<length xs]
        = filter (\<lambda>i. xs ! i \<notin> insert x S \<and> xs ! i \<notin> set (take i xs)) [0..<length xs]"
      by (intro filter_cong) auto
    then show ?thesis
      using False Cons.IH [of "insert x S"]
      by (simp add: upt filter_map comp_def del: upt_Suc)
  qed
qed

lemma getIdDifference_diffFrom: "getIdDifference existingIds newIds = diffFrom (set newIds) existingIds"
proof -
  have "{x. newIdsLoop newIds Map.empty x \<noteq> None} = set newIds"
    by (auto simp: newIdsLoop_None)
  then show ?thesis
    unfolding getIdDifference_def
    by (subst differenceLoop_diffFrom) (simp_all add: readBool_def)
qed

text \<open>
  C4. \<^verbatim>\<open>getIdDifference\<close> returns exactly the identifiers of \<open>existingIds\<close> that do not
  occur in \<open>newIds\<close>: the result is the list of the elements of \<open>existingIds\<close> at the
  positions whose element is not in \<open>newIds\<close> and has not occurred at an earlier
  position, in the order of the positions. So no identifier is repeated, also when
  \<open>existingIds\<close> has duplicates; the set of the result is the set difference; and the
  difference of w1, w2, w3 and w1, w3 is w2.
\<close>

theorem getIdDifference_first_occurrences:
  "getIdDifference existingIds newIds =
     map (nth existingIds)
       (filter (\<lambda>i. existingIds ! i \<notin> set newIds \<and> existingIds ! i \<notin> set (take i existingIds))
          [0..<length existingIds])
   \<and> set (getIdDifference existingIds newIds) = set existingIds - set newIds
   \<and> distinct (getIdDifference existingIds newIds)
   \<and> getIdDifference [''w1'', ''w2'', ''w1'', ''w2''] [] = [''w1'', ''w2'']
   \<and> getIdDifference [''w1'', ''w2'', ''w3''] [''w1'', ''w3''] = [''w2'']"
proof -
  have "getIdDifference [''w1'', ''w2'', ''w1'', ''w2''] [] = [''w1'', ''w2'']"
    by (simp add: getIdDifference_def readBool_def)
  moreover have "getIdDifference [''w1'', ''w2'', ''w3''] [''w1'', ''w3''] = [''w2'']"
    by (simp add: getIdDifference_def readBool_def)
  ultimately show ?thesis
    by (simp only: getIdDifference_diffFrom set_diffFrom distinct_diffFrom
          diffFrom_nth [symmetric] simp_thms)
qed

text \<open>C8. The difference of a list of identifiers with itself is empty.\<close>

theorem getIdDifference_self: "getIdDifference A A = []"
proof -
  have "set (getIdDifference A A) = {}"
    by (simp add: getIdDifference_diffFrom set_diffFrom)
  then show ?thesis by simp
qed

section \<open>Type assertions\<close>

lemma asString_Some: "asString v = Some s \<longleftrightarrow> v = VString s"
  by (cases v) auto

lemma asSlice_Some: "asSlice v = Some xs \<longleftrightarrow> v = VSlice xs"
  by (cases v) auto

lemma asMap_Some: "asMap v = Some m \<longleftrightarrow> v = VMap m"
  by (cases v) auto

lemma asMapStr_Some: "asMapStr v = Some m \<longleftrightarrow> v = VMapStr m"
  by (cases v) auto

section \<open>Named dashboards with panels\<close>

text \<open>
  C5, as the claim states it, fails: a document whose title is the empty string and whose
  widgets array has one element is flagged.
\<close>

theorem isDashboardWithPanelAndName_empty_title:
  "isDashboardWithPanelAndName untitledDoc \<and> index untitledDoc ''title'' = VString []"
  by (simp add: isDashboardWithPanelAndName_def untitledDoc_def index_def)

text \<open>
  C5, amended. The flag is true if and only if the title is a string other than
  "Sample Title" (the empty string included) and widgets is an array with at least one
  element.
\<close>

theorem isDashboardWithPanelAndName_iff:
  "isDashboardWithPanelAndName d \<longleftrightarrow>
     (\<exists>title. index d ''title'' = VString title \<and> title \<noteq> ''Sample Title'') \<and>
     (\<exists>ws. index d ''widgets'' = VSlice ws \<and> ws \<noteq> [])"
proof (cases "map_of d ''widgets''")
  case None
  then show ?thesis by (simp add: isDashboardWithPanelAndName_def index_def)
next
  case (Some widgets)
  then have w: "index d ''widgets'' = widgets" by (simp add: index_def)
  show ?thesis
  proof (cases "index d ''title''")
    case (VString title)
    then show ?thesis using Some w
      by (cases widgets) (auto simp: isDashboardWithPanelAndName_def)
  qed (simp_all add: isDashboardWithPanelAndName_def Some)
qed

theorem isDashboardWithPanelAndName_iff_witness:
  "isDashboardWithPanelAndName untitledDoc \<and> isDashboardWithPanelAndName logsContainsDoc
   \<and> \<not> isDashboardWithPanelAndName [(''title'', VString ''Sample Title''), (''widgets'', VSlice [VNil])]
   \<and> \<not> isDashboardWithPanelAndName [(''title'', VString ''CPU''), (''widgets'', VSlice [])]
   \<and> isDashboardWithPanelAndName [(''title'', VString ''CPU''), (''widgets'', VSlice [VNil])]"
  unfolding isDashboardWithPanelAndName_iff
  by (simp add: untitledDoc_def logsContainsDoc_def index_def)

section \<open>Traversal of malformed documents\<close>







lemma widgetsLoop_append:
  "widgetsLoop marshal d (xs @ ys) c = widgetsLoop marshal d ys (widgetsLoop marshal d xs c)"
  by (induction xs arbitrary: c) auto

section \<open>Flagged log filters\<close>

text \<open>
  C1. The document of the claim, as \<^verbatim>\<open>json.Unmarshal\<close> decodes it: one builder widget
  with one logs item whose filter has the operator "contains" on the key "message". The
  summary counts the logs panel; the flagged count is 0, since the key of the filter item
  is a \<^verbatim>\<open>map[string]interface{}\<close> and the assertion to \<^verbatim>\<open>map[string]string\<close> fails.
\<close>

theorem countPanelsInDashboard_logs_contains:
  "countPanelsInDashboard marshal logsContainsDoc =
     \<lparr>LogsBasedPanels = 1, TracesBasedPanels = 0, MetricBasedPanels = 0,
      DashboardsWithLogsChQuery = 0, DashboardsWithTraceChQuery = 0,
      LogsPanelsWithAttrContainsOp = 0\<rparr>"
  by (simp add: countPanelsInDashboard_def logsContainsDoc_def index_def widgetPanels_def
      checkLogPanelAttrContains_def noPanels_def)

section \<open>Raw-dialect flags\<close>

lemmas marshal_eval = Marshal_def sortKeys_def quoteString_def escapeByte_def noFloat_def

lemma Contains_iff: "Contains s sub \<longleftrightarrow> (\<exists>pre post. s = pre @ sub @ post)"
proof (induction s)
  case Nil
  show ?case by auto
next
  case (Cons c s)
  show ?case
  proof
    assume "Contains (c # s) sub"
    then consider "take (length sub) (c # s) = sub" | "Contains s sub" by auto
    then show "\<exists>pre post. c # s = pre @ sub @ post"
    proof cases
      case 1
      then have "c # s = [] @ sub @ drop (length sub) (c # s)"
        by (metis append_Nil append_take_drop_id)
      then show ?thesis by blast
    next
      case 2
      then obtain pre post where "s = pre @ sub @ post" using Cons.IH by blast
      then have "c # s = (c # pre) @ sub @ post" by simp
      then show ?thesis by blast
    qed
  next
    assume "\<exists>pre post. c # s = pre @ sub @ post"
    then obtain pre post where eq: "c # s = pre @ sub @ post" by blast
    show "Contains (c # s) sub"
    proof (cases pre)
      case Nil
      then have "take (length sub) (c # s) = sub" using eq by simp
      then show ?thesis by simp
    next
      case (Cons p pre')
      then have "s = pre' @ sub @ post" using eq by simp
      then have "Contains s sub" using Cons.IH by blast
      then show ?thesis by simp
    qed
  qed
qed

lemma builderQueryDataLoop_ch:
  "logChQueryCount (builderQueryDataLoop qs c) = logChQueryCount c \<and>
   traceChQueryCount (builderQueryDataLoop qs c) = traceChQueryCount c"
  by (induction qs arbitrary: c) (auto split: option.splits)

lemma widgetPanels_logCh:
  "logChQueryCount (widgetPanels marshal d w c) =
     (if isChWidget w \<and> isDashboardWithLogsClickhouseQuery marshal d then 1 else logChQueryCount c)"
  by (auto simp: widgetPanels_def isChWidget_def builderQueryDataLoop_ch Let_def asMap_Some
      split: option.splits)

lemma widgetPanels_traceCh:
  "traceChQueryCount (widgetPanels marshal d w c) =
     (if isChWidget w \<and> isDashboardWithTracesClickhouseQuery marshal d then 1 else traceChQueryCount c)"
  by (auto simp: widgetPanels_def isChWidget_def builderQueryDataLoop_ch Let_def asMap_Some
      split: option.splits)

lemma widgetsLoop_logCh:
  "logChQueryCount (widgetsLoop marshal d ws c) =
     (if list_ex isChWidget ws \<and> isDashboardWithLogsClickhouseQuery marshal d then 1
      else logChQueryCount c)"
  by (induction ws arbitrary: c) (auto simp: widgetPanels_logCh)

lemma widgetsLoop_traceCh:
  "traceChQueryCount (widgetsLoop marshal d ws c) =
     (if list_ex isChWidget ws \<and> isDashboardWithTracesClickhouseQuery marshal d then 1
      else traceChQueryCount c)"
  by (induction ws arbitrary: c) (auto simp: widgetPanels_traceCh)

lemma countPanels_widgetsOf:
  "countPanelsInDashboard marshal d =
     (let c = widgetsLoop marshal d (widgetsOf d) noPanels
      in \<lparr>LogsBasedPanels = logsPanelCount c,
          TracesBasedPanels = tracesPanelCount c,
          MetricBasedPanels = metricsPanelCount c,
          DashboardsWithLogsChQuery = logChQueryCount c,
          DashboardsWithTraceChQuery = traceChQueryCount c,
          LogsPanelsWithAttrContainsOp = logsPanelsWithAttrContains c\<rparr>)"
  by (auto simp: countPanelsInDashboard_def widgetsOf_def index_def Let_def split: option.splits)

text \<open>
  C2, as the claim states it, fails: the serialisation of this document contains
  "signoz_logs.logs" (in the title) and its only widget is a builder widget; the sniff of
  the source is true on the document and the flag of the summary is 0.
\<close>

theorem logs_fingerprint_without_raw_widget:
  "isDashboardWithLogsClickhouseQuery (Marshal noFloat) logsTitleDoc \<and>
   DashboardsWithLogsChQuery (countPanelsInDashboard (Marshal noFloat) logsTitleDoc) = 0"
  by (simp add: isDashboardWithLogsClickhouseQuery_def logsTitleDoc_def marshal_eval
        countPanelsInDashboard_def index_def widgetPanels_def checkLogPanelAttrContains_def noPanels_def)

text \<open>
  C2, amended. The logs flag of the summary is 1 when the document has at least one widget
  that is a mapping whose query is a mapping with queryType "clickhouse_sql" and a non-null
  clickhouse_sql field, and the serialisation succeeds and contains
  "signoz_logs.distributed_logs" or "signoz_logs.logs" anywhere; otherwise it is 0. The
  traces flag is the same with the three traces fingerprints. So each flag is 0 or 1.
\<close>

theorem clickhouse_flags_gated:
  "DashboardsWithLogsChQuery (countPanelsInDashboard marshal d) =
     (if list_ex isChWidget (widgetsOf d) \<and> isDashboardWithLogsClickhouseQuery marshal d then 1 else 0)
   \<and> DashboardsWithTraceChQuery (countPanelsInDashboard marshal d) =
     (if list_ex isChWidget (widgetsOf d) \<and> isDashboardWithTracesClickhouseQuery marshal d then 1 else 0)
   \<and> (isDashboardWithLogsClickhouseQuery marshal d \<longleftrightarrow>
        (\<exists>jsonData pre post. marshal d = Inr jsonData \<and>
           (jsonData = pre @ ''signoz_logs.distributed_logs'' @ post \<or>
            jsonData = pre @ ''signoz_logs.logs'' @ post)))
   \<and> (isDashboardWithTracesClickhouseQuery marshal d \<longleftrightarrow>
        (\<exists>jsonData pre post. marshal d = Inr jsonData \<and>
           (jsonData = pre @ ''signoz_traces.distributed_signoz_index_v2'' @ post \<or>
            jsonData = pre @ ''signoz_traces.distributed_signoz_spans'' @ post \<or>
            jsonData = pre @ ''signoz_traces.distributed_signoz_error_index_v2'' @ post)))"
proof -
  have a: "isDashboardWithLogsClickhouseQuery marshal d \<longleftrightarrow>
        (\<exists>jsonData pre post. marshal d = Inr jsonData \<and>
           (jsonData = pre @ ''signoz_logs.distributed_logs'' @ post \<or>
            jsonData = pre @ ''signoz_logs.logs'' @ post))"
    unfolding isDashboardWithLogsClickhouseQuery_def Contains_iff
    by (cases "marshal d") auto
  have b: "isDashboardWithTracesClickhouseQuery marshal d \<longleftrightarrow>
        (\<exists>jsonData pre post. marshal d = Inr jsonData \<and>
           (jsonData = pre @ ''signoz_traces.distributed_signoz_index_v2'' @ post \<or>
            jsonData = pre @ ''signoz_traces.distributed_signoz_spans'' @ post \<or>
            jsonData = pre @ ''signoz_traces.distributed_signoz_error_index_v2'' @ post))"
    unfolding isDashboardWithTracesClickhouseQuery_def Contains_iff
    by (cases "marshal d") auto
  have c: "DashboardsWithLogsChQuery (countPanelsInDashboard marshal d) =
     (if list_ex isChWidget (widgetsOf d) \<and> isDashboardWithLogsClickhouseQuery marshal d then 1 else 0)"
    by (simp add: countPanels_widgetsOf Let_def widgetsLoop_logCh noPanels_def)
  have e: "DashboardsWithTraceChQuery (countPanelsInDashboard marshal d) =
     (if list_ex isChWidget (widgetsOf d) \<and> isDashboardWithTracesClickhouseQuery marshal d then 1 else 0)"
    by (simp add: countPanels_widgetsOf Let_def widgetsLoop_traceCh noPanels_def)
  from a b c e show ?thesis by blast
qed

theorem clickhouse_flags_gated_witness:
  "DashboardsWithLogsChQuery (countPanelsInDashboard (Marshal noFloat) chQueryDoc) = 1 \<and>
   DashboardsWithTraceChQuery (countPanelsInDashboard (Marshal noFloat) chQueryDoc) = 1"
proof -
  have "list_ex isChWidget (widgetsOf chQueryDoc)"
    by (simp add: widgetsOf_def chQueryDoc_def index_def isChWidget_def)
  moreover have "isDashboardWithLogsClickhouseQuery (Marshal noFloat) chQueryDoc"
    by (simp add: isDashboardWithLogsClickhouseQuery_def chQueryDoc_def marshal_eval)
  moreover have "isDashboardWithTracesClickhouseQuery (Marshal noFloat) chQueryDoc"
    by (simp add: isDashboardWithTracesClickhouseQuery_def chQueryDoc_def marshal_eval)
  ultimately show ?thesis
    using clickhouse_flags_gated [of "Marshal noFloat" chQueryDoc] by simp
qed


section \<open>Rejecting an update that removes more than one panel\<close>

lemma getWidgetIds_threePanelDoc: "getWidgetIds threePanelDoc = [''w1'', ''w2'', ''w3'']"
  by (simp add: getWidgetIds_def threePanelDoc_def index_def)
lemma getWidgetIds_onePanelDoc: "getWidgetIds onePanelDoc = [''w1'']"
  by (simp add: getWidgetIds_def onePanelDoc_def index_def)
lemma getWidgetIds_twoPanelDoc: "getWidgetIds twoPanelDoc = [''w1'', ''w3'']"
  by (simp add: getWidgetIds_def twoPanelDoc_def index_def)

lemma marshal_onePanelDoc: "\<exists>mapData. Marshal noFloat onePanelDoc = Inr mapData"
  by (simp add: onePanelDoc_def marshal_eval)
lemma marshal_twoPanelDoc: "\<exists>mapData. Marshal noFloat twoPanelDoc = Inr mapData"
  by (simp add: twoPanelDoc_def marshal_eval)

text \<open>
  C3. Let the dashboard be stored. When the difference of the widget ids of the stored and
  the new document has more than one element, \<^verbatim>\<open>UpdateDashboard\<close> returns an error of the
  bad-request kind, which is not the kind of a persistence error, and leaves the table as
  it was; when the document was marshalled and the lock does not apply, the error is the
  bad request "deleting more than one panel is not supported". When the difference has at
  most one element, the document was marshalled and the lock does not apply, the policy
  check passes: the result is that of the statement, the updated dashboard and table, or
  the persistence error with the table unchanged.
\<close>

theorem UpdateDashboard_policy:
  assumes stored: "GetDashboard db uuid = Inr dashboard"
  shows
  "(length (getIdDifference (getWidgetIds (Data dashboard)) (getWidgetIds d)) > 1 \<longrightarrow>
      snd (UpdateDashboard marshal user now execErr db uuid d) = db \<and>
      (\<exists>e. fst (UpdateDashboard marshal user now execErr db uuid d) = Inl e \<and>
           Typ e = ErrorBadData \<and> Typ e \<noteq> ErrorExec) \<and>
      ((\<exists>mapData. marshal d = Inr mapData) \<and> (user = None \<or> Locked dashboard \<noteq> Some 1) \<longrightarrow>
         fst (UpdateDashboard marshal user now execErr db uuid d) =
           Inl (BadRequest ''deleting more than one panel is not supported'')))
   \<and> (length (getIdDifference (getWidgetIds (Data dashboard)) (getWidgetIds d)) \<le> 1 \<longrightarrow>
      ((\<exists>mapData. marshal d = Inr mapData) \<and> (user = None \<or> Locked dashboard \<noteq> Some 1) \<longrightarrow>
         fst (UpdateDashboard marshal user now execErr db uuid d) \<noteq>
           Inl (BadRequest ''deleting more than one panel is not supported'') \<and>
         (case execErr of
            Some err \<Rightarrow>
              UpdateDashboard marshal user now execErr db uuid d =
                (Inl \<lparr>Typ = ErrorExec, Err = err\<rparr>, db)
          | None \<Rightarrow>
              UpdateDashboard marshal user now execErr db uuid d =
                (Inr (dashboard\<lparr>UpdatedAt := now,
                        UpdateBy := Some (case user of None \<Rightarrow> [] | Some email \<Rightarrow> email),
                        Data := d\<rparr>),
                 map (\<lambda>r. if Uuid r = Uuid dashboard
                           then r\<lparr>UpdatedAt := now,
                                  UpdateBy := Some (case user of None \<Rightarrow> [] | Some email \<Rightarrow> email),
                                  Data := d\<rparr>
                           else r) db))))"
proof -
  let ?n = "length (getIdDifference (getWidgetIds (Data dashboard)) (getWidgetIds d))"
  show ?thesis
  proof (cases "marshal d")
    case (Inl err)
    then show ?thesis
      by (simp add: UpdateDashboard_def BadRequest_def)
  next
    case (Inr mapData)
    show ?thesis
    proof (cases "user \<noteq> None \<and> Locked dashboard = Some 1")
      case True
      then show ?thesis using Inr stored
        by (auto simp: UpdateDashboard_def BadRequest_def)
    next
      case False
      show ?thesis
      proof (cases "?n > 1")
        case True
        then show ?thesis using Inr stored False
          by (auto simp: UpdateDashboard_def BadRequest_def Let_def)
      next
        case n: False
        show ?thesis
        proof (cases execErr)
          case None
          then show ?thesis using Inr stored False n
            by (auto simp: UpdateDashboard_def BadRequest_def Let_def)
        next
          case (Some err)
          then show ?thesis using Inr stored False n
            by (auto simp: UpdateDashboard_def BadRequest_def Let_def)
        qed
      qed
    qed
  qed
qed

theorem UpdateDashboard_policy_witness:
  "getIdDifference (getWidgetIds (Data storedDashboard)) (getWidgetIds onePanelDoc) = [''w2'', ''w3'']
   \<and> UpdateDashboard (Marshal noFloat) (Some ''b@example.com'') 200 None [storedDashboard] ''d-1'' onePanelDoc =
      (Inl (BadRequest ''deleting more than one panel is not supported''), [storedDashboard])
   \<and> getIdDifference (getWidgetIds (Data storedDashboard)) (getWidgetIds twoPanelDoc) = [''w2'']
   \<and> UpdateDashboard (Marshal noFloat) (Some ''b@example.com'') 200 None [storedDashboard] ''d-1'' twoPanelDoc =
      (Inr (storedDashboard\<lparr>UpdatedAt := 200, UpdateBy := Some ''b@example.com'', Data := twoPanelDoc\<rparr>),
       [storedDashboard\<lparr>UpdatedAt := 200, UpdateBy := Some ''b@example.com'', Data := twoPanelDoc\<rparr>])"
proof -
  have g: "GetDashboard [storedDashboard] ''d-1'' = Inr storedDashboard"
    by (simp add: GetDashboard_def storedDashboard_def)
  have d: "Data storedDashboard = threePanelDoc" "Locked storedDashboard = None"
    by (simp_all add: storedDashboard_def)
  have diff1: "getIdDifference (getWidgetIds (Data storedDashboard)) (getWidgetIds onePanelDoc) = [''w2'', ''w3'']"
    by (simp add: d getWidgetIds_threePanelDoc getWidgetIds_onePanelDoc getIdDifference_def readBool_def)
  have diff2: "getIdDifference (getWidgetIds (Data storedDashboard)) (getWidgetIds twoPanelDoc) = [''w2'']"
    by (simp add: d getWidgetIds_threePanelDoc getWidgetIds_twoPanelDoc getIdDifference_def readBool_def)
  note a = UpdateDashboard_policy [OF g, of onePanelDoc "Marshal noFloat" "Some ''b@example.com''" 200 None]
  note b = UpdateDashboard_policy [OF g, of twoPanelDoc "Marshal noFloat" "Some ''b@example.com''" 200 None]
  have r1: "UpdateDashboard (Marshal noFloat) (Some ''b@example.com'') 200 None [storedDashboard] ''d-1'' onePanelDoc =
      (Inl (BadRequest ''deleting more than one panel is not supported''), [storedDashboard])"
    using a marshal_onePanelDoc by (simp add: diff1 d(2) prod_eq_iff)
  have r2: "UpdateDashboard (Marshal noFloat) (Some ''b@example.com'') 200 None [storedDashboard] ''d-1'' twoPanelDoc =
      (Inr (storedDashboard\<lparr>UpdatedAt := 200, UpdateBy := Some ''b@example.com'', Data := twoPanelDoc\<rparr>),
       [storedDashboard\<lparr>UpdatedAt := 200, UpdateBy := Some ''b@example.com'', Data := twoPanelDoc\<rparr>])"
    using b marshal_twoPanelDoc by (simp add: diff2 d(2))
  from diff1 diff2 r1 r2 show ?thesis by blast
qed

section \<open>The metric usage index\<close>

lemma metricNamesLoop_noEmpty:
  "noEmptyEntry result \<Longrightarrow> noEmptyEntry (metricNamesLoop key u names result)"
proof (induction names arbitrary: result)
  case Nil
  then show ?case by simp
next
  case (Cons m names)
  have "noEmptyEntry (result(m \<mapsto> usagesOf result m @ [u]))"
    using Cons.prems by (simp add: noEmptyEntry_def)
  with Cons show ?case by simp
qed

lemma usagesOf_upd: "usagesOf (result(m \<mapsto> us)) n = (if n = m then us else usagesOf result n)"
  by (simp add: usagesOf_def)

lemma usagesOf_empty: "usagesOf Map.empty n = []"
  by (simp add: usagesOf_def)

lemma metricNamesLoop_usagesOf:
  "usagesOf (metricNamesLoop key u names result) n =
     usagesOf result n @ (if TrimSpace key = n then replicate (count_list names n) u else [])"
proof (induction names arbitrary: result)
  case Nil
  show ?case by simp
next
  case (Cons m names)
  show ?case
  proof (cases "TrimSpace key = m")
    case True
    have "usagesOf (metricNamesLoop key u (m # names) result) n =
          usagesOf (metricNamesLoop key u names (result(m \<mapsto> usagesOf result m @ [u]))) n"
      using True by simp
    also have "\<dots> = usagesOf (result(m \<mapsto> usagesOf result m @ [u])) n @
          (if TrimSpace key = n then replicate (count_list names n) u else [])"
      by (rule Cons.IH)
    also have "\<dots> = (if n = m then usagesOf result m @ [u] else usagesOf result n) @
          (if TrimSpace key = n then replicate (count_list names n) u else [])"
      by (simp only: usagesOf_upd)
    also have "\<dots> = usagesOf result n @
          (if TrimSpace key = n then replicate (count_list (m # names) n) u else [])"
      using True by (auto simp: replicate_append_same)
    finally show ?thesis .
  next
    case False
    then show ?thesis by (auto simp: Cons.IH)
  qed
qed

lemma queryDataLoop_noEmpty:
  "noEmptyEntry result \<Longrightarrow> noEmptyEntry (queryDataLoop names u items result)"
proof (induction items arbitrary: result)
  case Nil
  then show ?case by simp
next
  case (Cons item items)
  show ?case
    by (auto intro!: Cons.IH metricNamesLoop_noEmpty Cons.prems split: option.splits)
qed

lemma queryDataLoop_usagesOf:
  "usagesOf (queryDataLoop names u items result) n =
     usagesOf result n @ concat (map (itemUsages names n u) items)"
proof (induction items arbitrary: result)
  case Nil
  show ?case by simp
next
  case (Cons item items)
  show ?case
    by (auto simp: Cons.IH metricNamesLoop_usagesOf itemUsages_def itemUses_def metricKeyOf_def
          asString_Some
        split: option.splits)
qed

lemma widgetsUsageLoop_noEmpty:
  "noEmptyEntry result \<Longrightarrow> noEmptyEntry (widgetsUsageLoop names uuid t ws result)"
proof (induction ws arbitrary: result)
  case Nil
  then show ?case by simp
next
  case (Cons w ws)
  show ?case
    by (auto intro!: Cons.IH queryDataLoop_noEmpty Cons.prems simp: Let_def split: option.splits)
qed

lemma widgetsUsageLoop_usagesOf:
  "usagesOf (widgetsUsageLoop names uuid t ws result) n =
     usagesOf result n @ concat (map (widgetUsages names n uuid t) ws)"
proof (induction ws arbitrary: result)
  case Nil
  show ?case by simp
next
  case (Cons w ws)
  show ?case
    by (auto simp: Cons.IH queryDataLoop_usagesOf widgetUsages_def builderItems_def
          usageRecord_def Let_def
        split: option.splits)
qed

lemma dashboardsLoop_noEmpty:
  "noEmptyEntry result \<Longrightarrow> noEmptyEntry (dashboardsLoop names rows result)"
proof (induction rows arbitrary: result)
  case Nil
  then show ?case by simp
next
  case (Cons row rows)
  show ?case
    by (auto intro!: Cons.IH widgetsUsageLoop_noEmpty Cons.prems simp: Let_def split: option.splits)
qed

lemma dashboardsLoop_usagesOf:
  "usagesOf (dashboardsLoop names rows result) n =
     usagesOf result n @ usagesSpec rows names n"
proof (induction rows arbitrary: result)
  case Nil
  show ?case by (simp add: usagesSpec_def)
next
  case (Cons row rows)
  show ?case
    by (auto simp: Cons.IH widgetsUsageLoop_usagesOf usagesSpec_def rowUsages_def rowWidgets_def
          rowTitle_def widgetsOf_def Let_def
        split: option.splits)
qed

lemma noEmptyEntry_char:
  assumes "noEmptyEntry result" and "\<And>n. usagesOf result n = S n"
  shows "result = (\<lambda>n. if S n = [] then None else Some (S n))"
proof
  fix n
  show "result n = (if S n = [] then None else Some (S n))"
    using assms(1) assms(2) [of n]
    by (cases "result n") (auto simp: usagesOf_def noEmptyEntry_def)
qed

lemma GetDashboardsWithMetricNames_char:
  "GetDashboardsWithMetricNames (Inr rows) names =
     Inr (\<lambda>n. if usagesSpec rows names n = [] then None else Some (usagesSpec rows names n))"
proof -
  have "noEmptyEntry (dashboardsLoop names rows Map.empty)"
    by (rule dashboardsLoop_noEmpty) (simp add: noEmptyEntry_def)
  moreover have "\<And>n. usagesOf (dashboardsLoop names rows Map.empty) n = usagesSpec rows names n"
    by (simp add: dashboardsLoop_usagesOf usagesOf_empty)
  ultimately show ?thesis
    unfolding GetDashboardsWithMetricNames_def
    by (simp add: noEmptyEntry_char)
qed

lemma set_usagesSpec:
  "u \<in> set (usagesSpec rows names n) \<longleftrightarrow>
     n \<in> set names \<and>
     (\<exists>row \<in> set rows. \<exists>w \<in> set (rowWidgets row).
        widgetUses n w \<and> u = usageRecord (rowUuid row) (rowTitle row) w)"
  by (auto simp: usagesSpec_def rowUsages_def widgetUsages_def itemUsages_def widgetUses_def
        list_ex_iff count_list_0_iff split: if_splits)

lemma usagesSpec_Nil_iff:
  "usagesSpec rows names n = [] \<longleftrightarrow>
     \<not> (n \<in> set names \<and> (\<exists>row \<in> set rows. \<exists>w \<in> set (rowWidgets row). widgetUses n w))"
proof -
  have "usagesSpec rows names n = [] \<longleftrightarrow> (\<forall>u. u \<notin> set (usagesSpec rows names n))"
    by (cases "usagesSpec rows names n") auto
  then show ?thesis
    unfolding set_usagesSpec by blast
qed


lemma TrimSpace_cpu: "TrimSpace '' cpu_usage '' = ''cpu_usage''"
  by (simp add: TrimSpace_def unicodeSpaces_def)

lemmas cpu_eval = cpuRow_def cpuDoc_def cpuWidget_def cpuUsage_def index_def stringOrEmpty_def
  usagesOf_def TrimSpace_cpu

lemma cpu_example:
  "\<exists>result. GetDashboardsWithMetricNames (Inr [cpuRow [(''queryType'', VString ''builder'')]]) [''cpu_usage''] = Inr result
     \<and> result ''cpu_usage'' = Some [cpuUsage] \<and> result '' cpu_usage '' = None"
  by (simp add: GetDashboardsWithMetricNames_def cpu_eval)

text \<open>
  C6. For all rows and requested names the function returns an index in which the list
  under a name \<open>n\<close> is the list of records that the four loops append: a record of a
  widget is under \<open>n\<close> exactly when \<open>n\<close> is a requested name and some builder query item
  of the widget has the dataSource "metrics" and an aggregateAttribute key that equals
  \<open>n\<close> after trimming. For the row whose item has the key " cpu_usage " and the requested
  name "cpu_usage", the index has the one record under "cpu_usage" and nothing under the
  untrimmed key.
\<close>

theorem GetDashboardsWithMetricNames_usages:
  "(\<exists>result. GetDashboardsWithMetricNames (Inr rows) metricNames = Inr result
      \<and> (\<forall>n. usagesOf result n = usagesSpec rows metricNames n)
      \<and> (\<forall>n u. u \<in> set (usagesOf result n) \<longleftrightarrow>
            n \<in> set metricNames \<and>
            (\<exists>row \<in> set rows. \<exists>w \<in> set (rowWidgets row).
               widgetUses n w \<and> u = usageRecord (rowUuid row) (rowTitle row) w)))
   \<and> (\<exists>result. GetDashboardsWithMetricNames (Inr [cpuRow [(''queryType'', VString ''builder'')]]) [''cpu_usage''] = Inr result
      \<and> result ''cpu_usage'' = Some [cpuUsage] \<and> result '' cpu_usage '' = None)"
proof -
  let ?r = "\<lambda>n. if usagesSpec rows metricNames n = [] then None
                else Some (usagesSpec rows metricNames n)"
  have u: "\<And>n. usagesOf ?r n = usagesSpec rows metricNames n"
    by (simp add: usagesOf_def)
  have "GetDashboardsWithMetricNames (Inr rows) metricNames = Inr ?r"
    by (rule GetDashboardsWithMetricNames_char)
  moreover have "\<forall>n. usagesOf ?r n = usagesSpec rows metricNames n"
    using u by blast
  moreover have "\<forall>n u. u \<in> set (usagesOf ?r n) \<longleftrightarrow>
            n \<in> set metricNames \<and>
            (\<exists>row \<in> set rows. \<exists>w \<in> set (rowWidgets row).
               widgetUses n w \<and> u = usageRecord (rowUuid row) (rowTitle row) w)"
    unfolding u set_usagesSpec by blast
  ultimately show ?thesis
    using cpu_example by blast
qed

theorem GetDashboardsWithMetricNames_usages_witness:
  "\<exists>result. GetDashboardsWithMetricNames (Inr [cpuRow []]) [''mem_usage'', ''cpu_usage'', ''cpu_usage''] = Inr result
     \<and> usagesOf result ''cpu_usage'' = [cpuUsage, cpuUsage]
     \<and> usagesOf result ''mem_usage'' = []"
proof -
  have a: "usagesSpec [cpuRow []] [''mem_usage'', ''cpu_usage'', ''cpu_usage''] ''cpu_usage'' = [cpuUsage, cpuUsage]"
    by (simp add: usagesSpec_def rowUsages_def rowWidgets_def widgetsOf_def rowTitle_def
          widgetUsages_def builderItems_def itemUsages_def itemUses_def metricKeyOf_def
          usageRecord_def cpu_eval)
  have b: "usagesSpec [cpuRow []] [''mem_usage'', ''cpu_usage'', ''cpu_usage''] ''mem_usage'' = []"
    by (simp add: usagesSpec_def rowUsages_def rowWidgets_def widgetsOf_def rowTitle_def
          widgetUsages_def builderItems_def itemUsages_def itemUses_def metricKeyOf_def
          usageRecord_def cpu_eval)
  show ?thesis
    using GetDashboardsWithMetricNames_usages [of "[cpuRow []]" "[''mem_usage'', ''cpu_usage'', ''cpu_usage'']"] a b
    by auto
qed

text \<open>
  C9. No key of the returned index is mapped to the empty list, and a name has no entry
  exactly when it is not a requested name with a widget that uses it: a requested name
  without a matching widget is absent from the index.
\<close>

theorem GetDashboardsWithMetricNames_no_empty_entry:
  "\<exists>result. GetDashboardsWithMetricNames (Inr rows) metricNames = Inr result
     \<and> (\<forall>n. result n \<noteq> Some [])
     \<and> (\<forall>n. result n = None \<longleftrightarrow>
          \<not> (n \<in> set metricNames \<and>
             (\<exists>row \<in> set rows. \<exists>w \<in> set (rowWidgets row). widgetUses n w)))"
  unfolding GetDashboardsWithMetricNames_char
  by (simp add: usagesSpec_Nil_iff)

theorem GetDashboardsWithMetricNames_no_empty_entry_witness:
  "\<exists>result. GetDashboardsWithMetricNames (Inr [cpuRow []]) [''mem_usage'', ''cpu_usage''] = Inr result
     \<and> result ''mem_usage'' = None \<and> result ''cpu_usage'' \<noteq> None \<and> result ''cpu_usage'' \<noteq> Some []"
proof -
  have w: "rowWidgets (cpuRow []) = [cpuWidget []]"
    by (simp add: rowWidgets_def widgetsOf_def cpu_eval)
  have a: "\<not> widgetUses ''mem_usage'' (cpuWidget [])"
    by (simp add: widgetUses_def builderItems_def itemUses_def metricKeyOf_def cpu_eval)
  have b: "widgetUses ''cpu_usage'' (cpuWidget [])"
    by (simp add: widgetUses_def builderItems_def itemUses_def metricKeyOf_def cpu_eval)
  show ?thesis
    using GetDashboardsWithMetricNames_no_empty_entry [of "[cpuRow []]" "[''mem_usage'', ''cpu_usage'']"] a b
    by (auto simp: w)
qed


section \<open>The query type\<close>

lemma usagesSpec_append:
  "usagesSpec (xs @ ys) names n = usagesSpec xs names n @ usagesSpec ys names n"
  by (simp add: usagesSpec_def)

lemma usagesSpec_Cons:
  "usagesSpec (row # rows) names n = rowUsages names n row @ usagesSpec rows names n"
  by (simp add: usagesSpec_def)

lemma rowUsages_queryType:
  "rowUsages names n
     \<lparr>rowUuid = uuid, rowData = Some ((''widgets'',
        VSlice (ws1 @ VMap ((''query'', VMap ((''queryType'', v) # query)) # widget) # ws2)) # dashData)\<rparr> =
   rowUsages names n
     \<lparr>rowUuid = uuid, rowData = Some ((''widgets'',
        VSlice (ws1 @ VMap ((''query'', VMap ((''queryType'', v') # query)) # widget) # ws2)) # dashData)\<rparr>"
  by (simp add: rowUsages_def rowWidgets_def widgetsOf_def rowTitle_def index_def
        widgetUsages_def builderItems_def usageRecord_def)

lemma builderQueryDataLoop_panels:
  "panelsOf c = panelsOf c' \<Longrightarrow>
   panelsOf (builderQueryDataLoop qs c) = panelsOf (builderQueryDataLoop qs c')"
proof (induction qs arbitrary: c c')
  case Nil
  then show ?case by simp
next
  case (Cons q qs)
  show ?case
    unfolding builderQueryDataLoop.simps
    by (rule Cons.IH) (use Cons.prems in \<open>auto simp: panelsOf_def split: option.splits\<close>)
qed

lemma widgetPanels_not_builder:
  "\<not> isBuilderWidget w \<Longrightarrow> panelsOf (widgetPanels marshal d w c) = panelsOf c"
  by (auto simp: isBuilderWidget_def queryTypeOf_def widgetPanels_def panelsOf_def Let_def
      split: option.splits)

lemma widgetPanels_builder:
  "isBuilderWidget w \<Longrightarrow> panelsOf c = panelsOf c' \<Longrightarrow>
   panelsOf (widgetPanels marshal d w c) = panelsOf (widgetPanels marshal' d' w c')"
  by (auto simp: isBuilderWidget_def queryTypeOf_def widgetPanels_def
      intro: builderQueryDataLoop_panels split: option.splits)

lemma widgetsLoop_panels:
  "panelsOf c = panelsOf c' \<Longrightarrow>
   panelsOf (widgetsLoop marshal d ws c) =
   panelsOf (widgetsLoop marshal' d' (filter isBuilderWidget ws) c')"
proof (induction ws arbitrary: c c')
  case Nil
  then show ?case by simp
next
  case (Cons w ws)
  show ?case
  proof (cases "isBuilderWidget w")
    case True
    have "panelsOf (widgetPanels marshal d w c) = panelsOf (widgetPanels marshal' d' w c')"
      using True Cons.prems by (rule widgetPanels_builder)
    then show ?thesis using True by (simp add: Cons.IH)
  next
    case False
    have "panelsOf (widgetPanels marshal d w c) = panelsOf c'"
      using False Cons.prems by (simp add: widgetPanels_not_builder)
    then show ?thesis using False by (simp add: Cons.IH)
  qed
qed

lemma widgetsOf_Cons: "widgetsOf ((''widgets'', VSlice ws) # d) = ws"
  by (simp add: widgetsOf_def index_def)

lemma countPanels_panels:
  "panelFields (countPanelsInDashboard marshal d) =
   panelFields (countPanelsInDashboard marshal'
      ((''widgets'', VSlice (filter isBuilderWidget (widgetsOf d))) # d'))"
proof -
  have "panelsOf (widgetsLoop marshal d (widgetsOf d) noPanels) =
        panelsOf (widgetsLoop marshal' ((''widgets'', VSlice (filter isBuilderWidget (widgetsOf d))) # d')
                   (filter isBuilderWidget (widgetsOf d)) noPanels)"
    by (rule widgetsLoop_panels) simp
  then show ?thesis
    by (simp add: countPanels_widgetsOf widgetsOf_Cons Let_def panelFields_def panelsOf_def)
qed

text \<open>
  C10. \<^verbatim>\<open>GetDashboardsWithMetricNames\<close> does not read queryType: replacing the queryType
  of the query of any widget of any row by any other value (nil reads as absent) leaves
  the result unchanged, and the widget with the key " cpu_usage " gives its record when
  the queryType is "clickhouse_sql" and when it is absent. The panel counters of
  \<^verbatim>\<open>countPanelsInDashboard\<close> are those of the document that keeps only the widgets whose
  queryType is "builder": the metrics item of that widget is counted with that queryType
  and not with "clickhouse_sql" or without one.
\<close>

theorem queryType_not_read_by_metric_usage:
  "GetDashboardsWithMetricNames
     (Inr (pre @ \<lparr>rowUuid = uuid, rowData = Some ((''widgets'',
        VSlice (ws1 @ VMap ((''query'', VMap ((''queryType'', v) # query)) # widget) # ws2)) # dashData)\<rparr> # post))
     metricNames =
   GetDashboardsWithMetricNames
     (Inr (pre @ \<lparr>rowUuid = uuid, rowData = Some ((''widgets'',
        VSlice (ws1 @ VMap ((''query'', VMap ((''queryType'', v') # query)) # widget) # ws2)) # dashData)\<rparr> # post))
     metricNames
   \<and> (\<exists>result. GetDashboardsWithMetricNames (Inr [cpuRow [(''queryType'', VString ''clickhouse_sql'')]]) [''cpu_usage''] = Inr result
        \<and> result ''cpu_usage'' = Some [cpuUsage])
   \<and> (\<exists>result. GetDashboardsWithMetricNames (Inr [cpuRow []]) [''cpu_usage''] = Inr result
        \<and> result ''cpu_usage'' = Some [cpuUsage])
   \<and> panelFields (countPanelsInDashboard marshal d) =
     panelFields (countPanelsInDashboard marshal'
        ((''widgets'', VSlice (filter isBuilderWidget (widgetsOf d))) # d'))
   \<and> MetricBasedPanels (countPanelsInDashboard marshal (cpuDoc [(''queryType'', VString ''builder'')])) = 1
   \<and> MetricBasedPanels (countPanelsInDashboard marshal (cpuDoc [(''queryType'', VString ''clickhouse_sql'')])) = 0
   \<and> MetricBasedPanels (countPanelsInDashboard marshal (cpuDoc [])) = 0"
proof -
  have a: "GetDashboardsWithMetricNames
     (Inr (pre @ \<lparr>rowUuid = uuid, rowData = Some ((''widgets'',
        VSlice (ws1 @ VMap ((''query'', VMap ((''queryType'', v) # query)) # widget) # ws2)) # dashData)\<rparr> # post))
     metricNames =
   GetDashboardsWithMetricNames
     (Inr (pre @ \<lparr>rowUuid = uuid, rowData = Some ((''widgets'',
        VSlice (ws1 @ VMap ((''query'', VMap ((''queryType'', v') # query)) # widget) # ws2)) # dashData)\<rparr> # post))
     metricNames"
    unfolding GetDashboardsWithMetricNames_char usagesSpec_append usagesSpec_Cons
      rowUsages_queryType [of _ _ _ _ v _ _ _ _ v'] ..
  have b: "\<exists>result. GetDashboardsWithMetricNames (Inr [cpuRow [(''queryType'', VString ''clickhouse_sql'')]]) [''cpu_usage''] = Inr result
        \<and> result ''cpu_usage'' = Some [cpuUsage]"
    by (simp add: GetDashboardsWithMetricNames_def cpu_eval)
  have c: "\<exists>result. GetDashboardsWithMetricNames (Inr [cpuRow []]) [''cpu_usage''] = Inr result
        \<and> result ''cpu_usage'' = Some [cpuUsage]"
    by (simp add: GetDashboardsWithMetricNames_def cpu_eval)
  have e: "MetricBasedPanels (countPanelsInDashboard marshal (cpuDoc [(''queryType'', VString ''builder'')])) = 1"
    by (simp add: countPanelsInDashboard_def cpuDoc_def cpuWidget_def index_def widgetPanels_def noPanels_def)
  have f: "MetricBasedPanels (countPanelsInDashboard marshal (cpuDoc [(''queryType'', VString ''clickhouse_sql'')])) = 0"
    by (simp add: countPanelsInDashboard_def cpuDoc_def cpuWidget_def index_def widgetPanels_def noPanels_def)
  have g: "MetricBasedPanels (countPanelsInDashboard marshal (cpuDoc [])) = 0"
    by (simp add: countPanelsInDashboard_def cpuDoc_def cpuWidget_def index_def widgetPanels_def noPanels_def)
  from a b c e f g countPanels_panels [of marshal d marshal' d'] show ?thesis by blast
qed

section \<open>Flagged log filters on decoded documents\<close>

text \<open>
  The counter of \<^verbatim>\<open>checkLogPanelAttrContains\<close> moves only for a filter item whose key is a
  \<^verbatim>\<open>map[string]string\<close>: then an operator of the list on a key other than "body" counts.
\<close>

lemma checkLogPanelAttrContains_string_map:
  "checkLogPanelAttrContains
     [(''filters'', VMap [(''items'', VSlice
        [VMap [(''op'', VString ''contains''), (''key'', VMapStr [(''key'', ''message'')])],
         VMap [(''op'', VString ''nlike''), (''key'', VMapStr [(''key'', ''body'')])],
         VMap [(''op'', VString ''in''), (''key'', VMapStr [(''key'', ''message'')])],
         VMap [(''op'', VString ''like''), (''key'', VMap [(''key'', VString ''message'')])]])])] = 1"
  by (simp add: checkLogPanelAttrContains_def index_def indexStr_def)

text \<open>On a document decoded from JSON the flagged count of the summary is 0.\<close>

lemma decoded_index: "decoded (VMap m) \<Longrightarrow> decoded (index m k)"
proof (induction m)
  case Nil
  show ?case by (simp add: index_def)
next
  case (Cons kv m)
  then show ?case by (cases kv) (auto simp: index_def)
qed

lemma attrContainsLoop_decoded:
  "list_all decoded items \<Longrightarrow> attrContainsLoop items n = n"
proof (induction items arbitrary: n)
  case Nil
  show ?case by simp
next
  case (Cons item items)
  have "asMapStr (index itemMap ''key'') = None" if "asMap item = Some itemMap" for itemMap
  proof -
    from that have "item = VMap itemMap" by (simp add: asMap_Some)
    with Cons.prems have "decoded (index itemMap ''key'')" by (simp add: decoded_index)
    then show ?thesis by (cases "index itemMap ''key''") auto
  qed
  with Cons show ?case by (auto split: option.splits)
qed

lemma checkLogPanelAttrContains_decoded:
  assumes "decoded (VMap d)"
  shows "checkLogPanelAttrContains d = 0"
proof (cases "index d ''filters''")
  case (VMap filters)
  with assms decoded_index [of d "''filters''"] have f: "decoded (VMap filters)" by simp
  show ?thesis
  proof (cases "index filters ''items''")
    case (VSlice items)
    with f decoded_index [of filters "''items''"] have "list_all decoded items" by simp
    then show ?thesis
      using VMap VSlice by (simp add: checkLogPanelAttrContains_def attrContainsLoop_decoded)
  qed (simp_all add: checkLogPanelAttrContains_def VMap)
qed (simp_all add: checkLogPanelAttrContains_def)

lemma builderQueryDataLoop_decoded:
  "list_all decoded qs \<Longrightarrow>
   logsPanelsWithAttrContains (builderQueryDataLoop qs c) = logsPanelsWithAttrContains c"
proof (induction qs arbitrary: c)
  case Nil
  show ?case by simp
next
  case (Cons q qs)
  have "checkLogPanelAttrContains qd = 0" if "asMap q = Some qd" for qd
    using that Cons.prems by (simp add: asMap_Some checkLogPanelAttrContains_decoded)
  with Cons show ?case by (auto split: option.splits)
qed

lemma widgetPanels_decoded:
  assumes "decoded w"
  shows "logsPanelsWithAttrContains (widgetPanels marshal d w c) = logsPanelsWithAttrContains c"
proof -
  have "logsPanelsWithAttrContains (builderQueryDataLoop qs c) = logsPanelsWithAttrContains c"
    if "asMap w = Some sData" "asMap (index sData ''query'') = Some query"
       "asMap (index query ''builder'') = Some builderData"
       "asSlice (index builderData ''queryData'') = Some qs"
    for sData query builderData qs
  proof -
    from that(1) assms have "decoded (VMap sData)" by (simp add: asMap_Some)
    then have "decoded (index sData ''query'')" by (rule decoded_index)
    with that(2) have "decoded (VMap query)" by (simp add: asMap_Some)
    then have "decoded (index query ''builder'')" by (rule decoded_index)
    with that(3) have "decoded (VMap builderData)" by (simp add: asMap_Some)
    then have "decoded (index builderData ''queryData'')" by (rule decoded_index)
    with that(4) have "list_all decoded qs" by (simp add: asSlice_Some)
    then show ?thesis by (rule builderQueryDataLoop_decoded)
  qed
  then show ?thesis
    by (auto simp: widgetPanels_def Let_def split: option.splits)
qed

lemma widgetsLoop_decoded:
  "list_all decoded ws \<Longrightarrow>
   logsPanelsWithAttrContains (widgetsLoop marshal d ws c) = logsPanelsWithAttrContains c"
  by (induction ws arbitrary: c) (auto simp: widgetPanels_decoded)

lemma countPanels_decoded:
  assumes "decoded (VMap d)"
  shows "LogsPanelsWithAttrContainsOp (countPanelsInDashboard marshal d) = 0"
proof (cases "index d ''widgets''")
  case (VSlice ws)
  with assms decoded_index [of d "''widgets''"] have "list_all decoded ws" by simp
  then show ?thesis
    using VSlice
    by (simp add: countPanels_widgetsOf widgetsOf_def Let_def widgetsLoop_decoded noPanels_def)
qed (simp_all add: countPanels_widgetsOf widgetsOf_def Let_def noPanels_def)

section \<open>Skipped widget elements\<close>










end
